theory Spec2Isabelle
  imports Complex_Main "HOL-Library.Sublist" "HOL-Library.Char_ord" "HOL-Library.List_Lexorder"
begin

section \<open>Strings and numbers of the host language\<close>

text \<open>
  Texts are lists of 8-bit characters: the model covers the strings whose code units are
  below 256. Among those, \<open>String.prototype.trim\<close> strips the code units 9 to 13, 32 and
  160 from both ends.
\<close>

definition isWhiteSpace :: "char \<Rightarrow> bool" where
  "isWhiteSpace c = ((of_char c :: nat) \<in> {9, 10, 11, 12, 13, 32, 160})"

definition trim :: "string \<Rightarrow> string" where
  "trim s = rev (dropWhile isWhiteSpace (rev (dropWhile isWhiteSpace s)))"

text \<open>
  \<open>s.split(c)\<close> for a one-character separator: the list of segments, never empty.
  \<open>.pop()\<close> on it is the last segment.
\<close>

fun split_js :: "char \<Rightarrow> string \<Rightarrow> string list" where
  "split_js c [] = [[]]"
| "split_js c (x # xs) =
     (if x = c then [] # split_js c xs
      else (case split_js c xs of
              [] \<Rightarrow> [[x]]
            | y # ys \<Rightarrow> (x # y) # ys))"

definition pop :: "string list \<Rightarrow> string" where
  "pop segs = last segs"

text \<open>
  Byte counts are non-negative integers (\<open>File.size\<close>). The decimal rendering of such a
  number is its digit string.
\<close>

definition digit_char :: "nat \<Rightarrow> char" where
  "digit_char d = ''0123456789'' ! d"

function string_of_nat :: "nat \<Rightarrow> string" where
  "string_of_nat n =
     (if n < 10 then [digit_char n]
      else string_of_nat (n div 10) @ [digit_char (n mod 10)])"
  by pat_completeness auto
termination
  by (relation "measure (\<lambda>n. n)") auto

declare string_of_nat.simps [simp del]

text \<open>
  \<open>(a / d).toFixed(1)\<close> for a non-negative integer \<open>a\<close> and \<open>d\<close> a power of two: the
  quotient is exact in binary floating point, and \<open>toFixed\<close> (for a value below \<open>10^21\<close>)
  takes the integer \<open>n\<close> for which \<open>n / 10\<close> is closest to it, the larger one of two. That is
  \<open>n = floor (10 * a / d + 1 / 2)\<close>, printed as the digits of \<open>n div 10\<close>, a point and the
  digit \<open>n mod 10\<close>.
\<close>

definition tenths :: "nat \<Rightarrow> nat \<Rightarrow> nat" where
  "tenths a d = (20 * a + d) div (2 * d)"

definition toFixed1 :: "nat \<Rightarrow> nat \<Rightarrow> string" where
  "toFixed1 a d =
     string_of_nat (tenths a d div 10) @ ''.'' @ [digit_char (tenths a d mod 10)]"

definition formatFileSize :: "nat \<Rightarrow> string" where
  "formatFileSize bytes =
     (if bytes < 1024 then string_of_nat bytes @ '' B''
      else if bytes < 1024 * 1024 then toFixed1 bytes 1024 @ '' KB''
      else toFixed1 bytes (1024 * 1024) @ '' MB'')"


section \<open>The remote variant of the editor\<close>

text \<open>The rows of the two tables, as the client's interfaces declare them.\<close>

record message =
  m_id :: string
  m_content :: string
  m_created_at :: string

record file_item =
  f_id :: string
  f_name :: string
  f_size :: nat
  f_type :: string
  f_url :: string
  f_created_at :: string

text \<open>A file picked in the browser: what the handlers read of a \<open>File\<close> object.\<close>

record upfile =
  file_name :: string
  file_size :: nat
  file_type :: string

text \<open>
  What a call of the data client resolves to: the pair \<open>{ data, error }\<close>, either of which
  may be absent.
\<close>

record 'a response =
  res_data :: "'a option"
  res_error :: "string option"

text \<open>
  The requests the component sends to the row store and to the blob store. The state keeps
  them in the order they are sent, so that what has been attempted can be read off it.
\<close>

datatype remote_call =
    SelectMessages
  | SelectFiles
  | InsertMessage string
  | DeleteMessageEq string
  | DeleteMessagesIn "string list"
  | StorageUpload string upfile
  | GetPublicUrl string
  | InsertFile string nat string string
  | StorageRemove "string list"
  | DeleteFileEq string
  | DeleteFilesIn "string list"

record editor =
  r_text :: string
  r_messages :: "message list"
  r_files :: "file_item list"
  r_isLoading :: bool
  r_isSyncing :: bool
  r_fileInput :: string
  r_calls :: "remote_call list"

definition editor_init :: editor where
  "editor_init =
     \<lparr>r_text = [], r_messages = [], r_files = [], r_isLoading = False, r_isSyncing = True,
      r_fileInput = [], r_calls = []\<rparr>"

definition send :: "remote_call \<Rightarrow> editor \<Rightarrow> editor" where
  "send c s = s\<lparr>r_calls := r_calls s @ [c]\<rparr>"

text \<open>
  Each handler takes, besides the state, what the outside world answers during its run.
  A handler runs from its start to its end without another handler in between.
\<close>

text \<open>\<open>loadData\<close>: \<open>None\<close> stands for a rejected \<open>Promise.all\<close>.\<close>

definition loadData ::
  "editor \<Rightarrow> (message list response \<times> file_item list response) option \<Rightarrow> editor" where
  "loadData s answers =
     (let s1 = send SelectFiles (send SelectMessages (s\<lparr>r_isSyncing := True\<rparr>));
          s2 = (case answers of
                  None \<Rightarrow> s1
                | Some (messagesRes, filesRes) \<Rightarrow>
                    (let s3 = (case res_data messagesRes of
                                 Some ms \<Rightarrow> s1\<lparr>r_messages := ms\<rparr>
                               | None \<Rightarrow> s1)
                     in (case res_data filesRes of
                           Some fs \<Rightarrow> s3\<lparr>r_files := fs\<rparr>
                         | None \<Rightarrow> s3)))
      in s2\<lparr>r_isSyncing := False\<rparr>)"

definition handleSave :: "editor \<Rightarrow> message response \<Rightarrow> editor" where
  "handleSave s res =
     (if trim (r_text s) = [] then s
      else
        (let s1 = send (InsertMessage (trim (r_text s))) (s\<lparr>r_isLoading := True\<rparr>);
             s2 = (case res_data res of
                     Some row \<Rightarrow>
                       (if res_error res = None
                        then s1\<lparr>r_messages := row # r_messages s1, r_text := []\<rparr>
                        else s1)
                   | None \<Rightarrow> s1)
         in s2\<lparr>r_isLoading := False\<rparr>))"

definition handleReset :: "editor \<Rightarrow> editor" where
  "handleReset s = s\<lparr>r_text := []\<rparr>"

definition handleDeleteMessage :: "editor \<Rightarrow> string \<Rightarrow> string option \<Rightarrow> editor" where
  "handleDeleteMessage s i err =
     (let s1 = send (DeleteMessageEq i) s
      in if err = None
         then s1\<lparr>r_messages := filter (\<lambda>m. m_id m \<noteq> i) (r_messages s1)\<rparr>
         else s1)"

definition handleDeleteAllMessages :: "editor \<Rightarrow> bool \<Rightarrow> string option \<Rightarrow> editor" where
  "handleDeleteAllMessages s confirm err =
     (if \<not> confirm then s
      else
        (let ids = map m_id (r_messages s);
             s1 = send (DeleteMessagesIn ids) (s\<lparr>r_isLoading := True\<rparr>);
             s2 = (if err = None then s1\<lparr>r_messages := []\<rparr> else s1)
         in s2\<lparr>r_isLoading := False\<rparr>))"

text \<open>
  What the world answers while one file of a batch is uploaded: the identifier drawn for
  its storage key, the outcome of the blob upload, the public URL of the key and the
  answer to the row insert.
\<close>

record upload_answers =
  randomUUID :: string
  uploadError :: "string option"
  publicUrl :: string
  insertRes :: "file_item response"

definition storage_key :: "upfile \<Rightarrow> upload_answers \<Rightarrow> string" where
  "storage_key file a = randomUUID a @ ''.'' @ pop (split_js CHR ''.'' (file_name file))"

text \<open>The body of the \<open>for\<close> loop of \<open>handleFileUpload\<close>, and the loop.\<close>

definition upload_one :: "editor \<Rightarrow> upfile \<times> upload_answers \<Rightarrow> editor" where
  "upload_one s fa =
     (let file = fst fa; a = snd fa;
          fileName = storage_key file a;
          s1 = send (StorageUpload fileName file) s
      in if uploadError a \<noteq> None then s1
         else
           (let s2 = send (GetPublicUrl fileName) s1;
                s3 = send (InsertFile (file_name file) (file_size file) (file_type file)
                             (publicUrl a)) s2
            in (case res_data (insertRes a) of
                  Some row \<Rightarrow>
                    (if res_error (insertRes a) = None
                     then s3\<lparr>r_files := row # r_files s3\<rparr>
                     else s3)
                | None \<Rightarrow> s3)))"

fun upload_loop :: "editor \<Rightarrow> (upfile \<times> upload_answers) list \<Rightarrow> editor" where
  "upload_loop s [] = s"
| "upload_loop s (fa # rest) = upload_loop (upload_one s fa) rest"

definition handleFileUpload ::
  "editor \<Rightarrow> (upfile \<times> upload_answers) list option \<Rightarrow> editor" where
  "handleFileUpload s uploadedFiles =
     (case uploadedFiles of
        None \<Rightarrow> s
      | Some batch \<Rightarrow>
          (upload_loop (s\<lparr>r_isLoading := True\<rparr>) batch)
            \<lparr>r_isLoading := False, r_fileInput := []\<rparr>)"

text \<open>
  \<open>handleDeleteFile\<close>: \<open>removeErr\<close> is the outcome of the blob removal, which the handler
  awaits and does not look at; \<open>err\<close> is the outcome of the row deletion.
\<close>

definition handleDeleteFile ::
  "editor \<Rightarrow> file_item \<Rightarrow> string option \<Rightarrow> string option \<Rightarrow> editor" where
  "handleDeleteFile s file removeErr err =
     (let fileName = pop (split_js CHR ''/'' (f_url file));
          s1 = (if fileName \<noteq> [] then send (StorageRemove [fileName]) s else s);
          s2 = send (DeleteFileEq (f_id file)) s1
      in if err = None
         then s2\<lparr>r_files := filter (\<lambda>f. f_id f \<noteq> f_id file) (r_files s2)\<rparr>
         else s2)"

definition handleDeleteAllFiles ::
  "editor \<Rightarrow> bool \<Rightarrow> string option \<Rightarrow> string option \<Rightarrow> editor" where
  "handleDeleteAllFiles s confirm removeErr err =
     (if \<not> confirm then s
      else
        (let s0 = s\<lparr>r_isLoading := True\<rparr>;
             fileNames = filter (\<lambda>n. n \<noteq> [])
                           (map (\<lambda>f. pop (split_js CHR ''/'' (f_url f))) (r_files s0));
             s1 = (if length fileNames > 0 then send (StorageRemove fileNames) s0 else s0);
             ids = map f_id (r_files s1);
             s2 = send (DeleteFilesIn ids) s1;
             s3 = (if err = None then s2\<lparr>r_files := []\<rparr> else s2)
         in s3\<lparr>r_isLoading := False\<rparr>))"


section \<open>The local variant of the editor\<close>

record local_message =
  lm_id :: string
  lm_content :: string
  lm_createdAt :: string

record local_file_item =
  lf_id :: string
  lf_name :: string
  lf_size :: nat
  lf_type :: string
  lf_data :: string
  lf_createdAt :: string

text \<open>
  The browser's persistent key-value store. A stored value is one of the two lists the
  component keeps; serialisation to text and back is the identity on them.
\<close>

datatype stored =
    StoredMessages "local_message list"
  | StoredFiles "local_file_item list"

type_synonym local_storage = "string \<rightharpoonup> stored"

definition MESSAGES_KEY :: string where
  "MESSAGES_KEY = ''khos-file-editor-messages''"

definition FILES_KEY :: string where
  "FILES_KEY = ''khos-file-editor-files''"

record local_editor =
  l_text :: string
  l_messages :: "local_message list"
  l_files :: "local_file_item list"
  l_isLoading :: bool
  l_fileInput :: string
  l_storage :: local_storage

text \<open>
  Modelled from the spec: the initial read of the hook \<open>useLocalStorage\<close> of
  \<open>hooks/useLocalStorage\<close>, which the component imports and which is not among the sources.
  By the specification the state starts from what the store holds under the key, or from
  the supplied default when nothing usable is stored there (\<open>get-by-key\<close>). This is the
  read for the message list.
\<close>

definition stored_messages :: "local_storage \<Rightarrow> string \<Rightarrow> local_message list \<Rightarrow> local_message list" where
  "stored_messages st key initialValue =
     (case st key of Some (StoredMessages ms) \<Rightarrow> ms | _ \<Rightarrow> initialValue)"

text \<open>
  Modelled from the spec: the same initial read of the missing hook \<open>useLocalStorage\<close>, for
  the file list.
\<close>

definition stored_files :: "local_storage \<Rightarrow> string \<Rightarrow> local_file_item list \<Rightarrow> local_file_item list" where
  "stored_files st key initialValue =
     (case st key of Some (StoredFiles fs) \<Rightarrow> fs | _ \<Rightarrow> initialValue)"

text \<open>
  Modelled from the spec: the setter that the missing hook \<open>useLocalStorage\<close> returns for
  the message list, called with an updater of the previous list. By the specification
  every state update is mirrored to the store at once, overwriting the whole list under
  the key (\<open>set-by-key\<close>).
\<close>

definition setMessages ::
  "(local_message list \<Rightarrow> local_message list) \<Rightarrow> local_editor \<Rightarrow> local_editor" where
  "setMessages upd s =
     s\<lparr>l_messages := upd (l_messages s),
       l_storage := (l_storage s)(MESSAGES_KEY \<mapsto> StoredMessages (upd (l_messages s)))\<rparr>"

text \<open>
  Modelled from the spec: the setter that the missing hook \<open>useLocalStorage\<close> returns for
  the file list, mirrored to the store in the same way.
\<close>

definition setFiles ::
  "(local_file_item list \<Rightarrow> local_file_item list) \<Rightarrow> local_editor \<Rightarrow> local_editor" where
  "setFiles upd s =
     s\<lparr>l_files := upd (l_files s),
       l_storage := (l_storage s)(FILES_KEY \<mapsto> StoredFiles (upd (l_files s)))\<rparr>"

text \<open>The component at page load, over the store as the last session left it.\<close>

definition local_init :: "local_storage \<Rightarrow> local_editor" where
  "local_init st =
     \<lparr>l_text = [],
      l_messages = stored_messages st MESSAGES_KEY [],
      l_files = stored_files st FILES_KEY [],
      l_isLoading = False,
      l_fileInput = [],
      l_storage = st\<rparr>"

definition reload :: "local_editor \<Rightarrow> local_editor" where
  "reload s = local_init (l_storage s)"

text \<open>
  \<open>handleSave\<close> of the local variant; \<open>uuid\<close> and \<open>now\<close> are what \<open>crypto.randomUUID()\<close>
  and \<open>new Date().toISOString()\<close> return during the call.
\<close>

definition handleSave_local :: "local_editor \<Rightarrow> string \<Rightarrow> string \<Rightarrow> local_editor" where
  "handleSave_local s uuid now =
     (if trim (l_text s) = [] then s
      else
        (let newMessage = \<lparr>lm_id = uuid, lm_content = trim (l_text s), lm_createdAt = now\<rparr>
         in (setMessages (\<lambda>prev. newMessage # prev) s)\<lparr>l_text := []\<rparr>))"

definition handleReset_local :: "local_editor \<Rightarrow> local_editor" where
  "handleReset_local s = s\<lparr>l_text := []\<rparr>"

definition handleDeleteMessage_local :: "local_editor \<Rightarrow> string \<Rightarrow> local_editor" where
  "handleDeleteMessage_local s i = setMessages (\<lambda>prev. filter (\<lambda>m. lm_id m \<noteq> i) prev) s"

definition handleDeleteAllMessages_local :: "local_editor \<Rightarrow> bool \<Rightarrow> local_editor" where
  "handleDeleteAllMessages_local s confirm =
     (if confirm then setMessages (\<lambda>prev. []) s else s)"

text \<open>
  What the world answers while one file of a batch is read: the data URL the reader
  hands to \<open>onload\<close> (\<open>None\<close> when the read fails, so that \<open>onload\<close> never fires and the
  promise never resolves), and the identifier and the time drawn after the read.
\<close>

record read_answers =
  readResult :: "string option"
  fileUUID :: string
  fileNow :: string

text \<open>
  The \<open>for\<close> loop of the local \<open>handleFileUpload\<close>, pushing onto \<open>newFiles\<close>; \<open>None\<close> when
  the handler stays suspended at a read.
\<close>

fun read_loop ::
  "local_file_item list \<Rightarrow> (upfile \<times> read_answers) list \<Rightarrow> local_file_item list option" where
  "read_loop newFiles [] = Some newFiles"
| "read_loop newFiles (fa # rest) =
     (case readResult (snd fa) of
        None \<Rightarrow> None
      | Some fileData \<Rightarrow>
          read_loop
            (newFiles @
               [\<lparr>lf_id = fileUUID (snd fa),
                 lf_name = file_name (fst fa),
                 lf_size = file_size (fst fa),
                 lf_type = file_type (fst fa),
                 lf_data = fileData,
                 lf_createdAt = fileNow (snd fa)\<rparr>])
            rest)"

definition handleFileUpload_local ::
  "local_editor \<Rightarrow> (upfile \<times> read_answers) list option \<Rightarrow> local_editor" where
  "handleFileUpload_local s uploadedFiles =
     (case uploadedFiles of
        None \<Rightarrow> s
      | Some batch \<Rightarrow>
          (let s1 = s\<lparr>l_isLoading := True\<rparr>
           in (case read_loop [] batch of
                 None \<Rightarrow> s1
               | Some newFiles \<Rightarrow>
                   (setFiles (\<lambda>prev. newFiles @ prev) s1)
                     \<lparr>l_isLoading := False, l_fileInput := []\<rparr>)))"

definition handleDeleteFile_local :: "local_editor \<Rightarrow> string \<Rightarrow> local_editor" where
  "handleDeleteFile_local s i = setFiles (\<lambda>prev. filter (\<lambda>f. lf_id f \<noteq> i) prev) s"

definition handleDeleteAllFiles_local :: "local_editor \<Rightarrow> bool \<Rightarrow> local_editor" where
  "handleDeleteAllFiles_local s confirm =
     (if confirm then setFiles (\<lambda>prev. []) s else s)"

text \<open>A session of the local variant: the user's actions, one after the other.\<close>

datatype local_event =
    SetText string
  | Save string string
  | Reset
  | DeleteMessage string
  | DeleteAllMessages bool
  | FileUpload "(upfile \<times> read_answers) list option"
  | DeleteFile string
  | DeleteAllFiles bool

fun local_step :: "local_editor \<Rightarrow> local_event \<Rightarrow> local_editor" where
  "local_step s (SetText t) = s\<lparr>l_text := t\<rparr>"
| "local_step s (Save uuid now) = handleSave_local s uuid now"
| "local_step s Reset = handleReset_local s"
| "local_step s (DeleteMessage i) = handleDeleteMessage_local s i"
| "local_step s (DeleteAllMessages confirm) = handleDeleteAllMessages_local s confirm"
| "local_step s (FileUpload uploadedFiles) = handleFileUpload_local s uploadedFiles"
| "local_step s (DeleteFile i) = handleDeleteFile_local s i"
| "local_step s (DeleteAllFiles confirm) = handleDeleteAllFiles_local s confirm"

definition local_run :: "local_editor \<Rightarrow> local_event list \<Rightarrow> local_editor" where
  "local_run s evs = foldl local_step s evs"

text \<open>Newest first: the creation times never increase along the list.\<close>

definition newest_first_files :: "local_file_item list \<Rightarrow> bool" where
  "newest_first_files fs = sorted_wrt (\<lambda>a b. lf_createdAt b \<le> lf_createdAt a) fs"

definition newest_first_messages :: "local_message list \<Rightarrow> bool" where
  "newest_first_messages ms = sorted_wrt (\<lambda>a b. lm_createdAt b \<le> lm_createdAt a) ms"

definition newest_first_rows :: "file_item list \<Rightarrow> bool" where
  "newest_first_rows fs = sorted_wrt (\<lambda>a b. f_created_at b \<le> f_created_at a) fs"

section \<open>Auxiliary facts\<close>

subsection \<open>Trimming and rounding\<close>

lemma trim_empty_iff: "trim s = [] \<longleftrightarrow> (\<forall>c\<in>set s. isWhiteSpace c)"
proof
  assume "trim s = []"
  then have "dropWhile isWhiteSpace (rev (dropWhile isWhiteSpace s)) = []"
    by (simp add: trim_def)
  then have all: "\<forall>c\<in>set (dropWhile isWhiteSpace s). isWhiteSpace c"
    by simp
  have "dropWhile isWhiteSpace s = []"
  proof (cases "dropWhile isWhiteSpace s")
    case Nil
    then show ?thesis .
  next
    case (Cons x xs)
    then have "\<not> isWhiteSpace x"
      using hd_dropWhile [of isWhiteSpace s] by simp
    with all Cons show ?thesis by simp
  qed
  then show "\<forall>c\<in>set s. isWhiteSpace c"
    by simp
next
  assume "\<forall>c\<in>set s. isWhiteSpace c"
  then have dw: "dropWhile isWhiteSpace s = []"
    by simp
  show "trim s = []"
    unfolding trim_def dw by simp
qed

lemma dropWhile_head: "dropWhile P xs = [] \<or> \<not> P (hd (dropWhile P xs))"
  using hd_dropWhile [of P xs] by blast

lemma trim_idem: "trim (trim s) = trim s"
proof -
  define d where "d = dropWhile isWhiteSpace s"
  define e where "e = dropWhile isWhiteSpace (rev d)"
  have t: "trim s = rev e"
    by (simp add: trim_def d_def e_def)
  have d_split: "d = rev e @ rev (takeWhile isWhiteSpace (rev d))"
  proof -
    have "rev d = takeWhile isWhiteSpace (rev d) @ e"
      by (simp add: e_def)
    then have "rev (rev d) = rev (takeWhile isWhiteSpace (rev d) @ e)"
      by simp
    then show ?thesis by simp
  qed
  have front: "dropWhile isWhiteSpace (rev e) = rev e"
  proof (cases "rev e")
    case Nil
    then show ?thesis by simp
  next
    case (Cons x xs)
    with d_split have "d = x # (xs @ rev (takeWhile isWhiteSpace (rev d)))"
      by (metis append_Cons)
    then have "hd d = x" and "d \<noteq> []"
      by (metis list.sel(1), metis list.distinct(1))
    moreover have "d = [] \<or> \<not> isWhiteSpace (hd d)"
      unfolding d_def by (rule dropWhile_head)
    ultimately have "\<not> isWhiteSpace x" by simp
    with Cons show ?thesis by simp
  qed
  have rear: "dropWhile isWhiteSpace e = e"
    unfolding e_def by (rule dropWhile_idem)
  show ?thesis
    unfolding t by (simp add: trim_def front rear)
qed

lemma tenths_floor: "0 < d \<Longrightarrow> int (tenths a d) = \<lfloor>real a / real d * 10 + 1 / 2\<rfloor>"
proof -
  assume d: "0 < d"
  have "real a / real d * 10 + 1 / 2 = real (20 * a + d) / real (2 * d)"
    using d by (simp add: field_simps)
  then have "\<lfloor>real a / real d * 10 + 1 / 2\<rfloor> = \<lfloor>real (20 * a + d) / real (2 * d)\<rfloor>"
    by simp
  also have "\<dots> = int ((20 * a + d) div (2 * d))"
    by (rule floor_divide_of_nat_eq)
  finally show ?thesis
    by (simp add: tenths_def)
qed

lemma string_of_nat_digit: "n < 10 \<Longrightarrow> string_of_nat n = [digit_char n]"
  by (simp add: string_of_nat.simps)

section \<open>The claims\<close>

subsection \<open>Rendering of byte counts\<close>

text \<open>
  C5: \<open>formatFileSize\<close>, the same function in both variants, gives the byte count followed
  by \<open>B\<close> below 1024; from 1024 and below 1048576 the count divided by 1024, rounded to
  the nearest tenth (the upper one of two) and printed with one decimal, followed by \<open>KB\<close>;
  from 1048576 on the same with 1048576 and \<open>MB\<close>. At the boundaries it gives \<open>1023 B\<close>,
  \<open>1.0 KB\<close> and \<open>1.0 MB\<close>.
\<close>

theorem formatFileSize_rendering:
  "(bytes < 1024 \<longrightarrow> formatFileSize bytes = string_of_nat bytes @ '' B'') \<and>
   (1024 \<le> bytes \<and> bytes < 1048576 \<longrightarrow>
      (\<exists>n. int n = \<lfloor>real bytes / 1024 * 10 + 1 / 2\<rfloor> \<and>
           formatFileSize bytes =
             string_of_nat (n div 10) @ ''.'' @ string_of_nat (n mod 10) @ '' KB'')) \<and>
   (1048576 \<le> bytes \<longrightarrow>
      (\<exists>n. int n = \<lfloor>real bytes / 1048576 * 10 + 1 / 2\<rfloor> \<and>
           formatFileSize bytes =
             string_of_nat (n div 10) @ ''.'' @ string_of_nat (n mod 10) @ '' MB'')) \<and>
   formatFileSize 1023 = ''1023 B'' \<and>
   formatFileSize 1024 = ''1.0 KB'' \<and>
   formatFileSize 1048576 = ''1.0 MB''"
proof (intro conjI impI)
  assume "bytes < 1024"
  then show "formatFileSize bytes = string_of_nat bytes @ '' B''"
    by (simp add: formatFileSize_def)
next
  assume range: "1024 \<le> bytes \<and> bytes < 1048576"
  have fl: "int (tenths bytes 1024) = \<lfloor>real bytes / 1024 * 10 + 1 / 2\<rfloor>"
    using tenths_floor [of 1024 bytes] by simp
  have "formatFileSize bytes =
          string_of_nat (tenths bytes 1024 div 10) @ ''.'' @
          string_of_nat (tenths bytes 1024 mod 10) @ '' KB''"
    using range by (simp add: formatFileSize_def toFixed1_def string_of_nat_digit)
  with fl show "\<exists>n. int n = \<lfloor>real bytes / 1024 * 10 + 1 / 2\<rfloor> \<and>
           formatFileSize bytes =
             string_of_nat (n div 10) @ ''.'' @ string_of_nat (n mod 10) @ '' KB''"
    by blast
next
  assume range: "1048576 \<le> bytes"
  have fl: "int (tenths bytes 1048576) = \<lfloor>real bytes / 1048576 * 10 + 1 / 2\<rfloor>"
    using tenths_floor [of 1048576 bytes] by simp
  have "formatFileSize bytes =
          string_of_nat (tenths bytes 1048576 div 10) @ ''.'' @
          string_of_nat (tenths bytes 1048576 mod 10) @ '' MB''"
    using range by (simp add: formatFileSize_def toFixed1_def string_of_nat_digit)
  with fl show "\<exists>n. int n = \<lfloor>real bytes / 1048576 * 10 + 1 / 2\<rfloor> \<and>
           formatFileSize bytes =
             string_of_nat (n div 10) @ ''.'' @ string_of_nat (n mod 10) @ '' MB''"
    by blast
next
  show "formatFileSize 1023 = ''1023 B''"
    by (simp add: formatFileSize_def string_of_nat.simps digit_char_def)
next
  show "formatFileSize 1024 = ''1.0 KB''"
    by (simp add: formatFileSize_def toFixed1_def tenths_def string_of_nat.simps digit_char_def)
next
  show "formatFileSize 1048576 = ''1.0 MB''"
    by (simp add: formatFileSize_def toFixed1_def tenths_def string_of_nat.simps digit_char_def)
qed

theorem formatFileSize_rendering_witness:
  "formatFileSize 1000 = ''1000 B'' \<and>
   (\<exists>n. int n = \<lfloor>real (1280::nat) / 1024 * 10 + 1 / 2\<rfloor> \<and>
        formatFileSize 1280 = string_of_nat (n div 10) @ ''.'' @ string_of_nat (n mod 10) @ '' KB'') \<and>
   formatFileSize 1280 = ''1.3 KB'' \<and>
   (\<exists>n. int n = \<lfloor>real (5000000::nat) / 1048576 * 10 + 1 / 2\<rfloor> \<and>
        formatFileSize 5000000 = string_of_nat (n div 10) @ ''.'' @ string_of_nat (n mod 10) @ '' MB'') \<and>
   formatFileSize 5000000 = ''4.8 MB''"
proof -
  have a: "formatFileSize 1000 = string_of_nat 1000 @ '' B''"
    using formatFileSize_rendering [of 1000] by simp
  have b: "\<exists>n. int n = \<lfloor>real (1280::nat) / 1024 * 10 + 1 / 2\<rfloor> \<and>
        formatFileSize 1280 = string_of_nat (n div 10) @ ''.'' @ string_of_nat (n mod 10) @ '' KB''"
    using formatFileSize_rendering [of 1280] by simp
  have c: "\<exists>n. int n = \<lfloor>real (5000000::nat) / 1048576 * 10 + 1 / 2\<rfloor> \<and>
        formatFileSize 5000000 = string_of_nat (n div 10) @ ''.'' @ string_of_nat (n mod 10) @ '' MB''"
    using formatFileSize_rendering [of 5000000] by simp
  have d: "string_of_nat 1000 = ''1000''"
    by (simp add: string_of_nat.simps digit_char_def)
  have e: "formatFileSize 1280 = ''1.3 KB''"
    by (simp add: formatFileSize_def toFixed1_def tenths_def string_of_nat.simps digit_char_def)
  have f: "formatFileSize 5000000 = ''4.8 MB''"
    by (simp add: formatFileSize_def toFixed1_def tenths_def string_of_nat.simps digit_char_def)
  from a b c d e f show ?thesis by simp
qed

subsection \<open>Saving a message\<close>

text \<open>
  C9: when the input text is empty or all whitespace, saving changes nothing in either
  variant: the whole state stays as it was, so the message list is unchanged, no insert
  is sent to the row store and nothing is written to the persistent store. Whatever the
  text, an insert that a save sends and a message that a local save adds have a content
  whose trimmed form is not empty.
\<close>

theorem save_blank_text_noop:
  "((\<forall>c\<in>set (r_text s). isWhiteSpace c) \<longrightarrow> handleSave s res = s) \<and>
   ((\<forall>c\<in>set (l_text ls). isWhiteSpace c) \<longrightarrow> handleSave_local ls uuid now = ls) \<and>
   (\<forall>c. InsertMessage c \<in> set (r_calls (handleSave s res)) \<and>
        InsertMessage c \<notin> set (r_calls s) \<longrightarrow> trim c \<noteq> []) \<and>
   (\<forall>m. m \<in> set (l_messages (handleSave_local ls uuid now)) \<and>
        m \<notin> set (l_messages ls) \<longrightarrow> trim (lm_content m) \<noteq> [])"
proof (intro conjI impI allI)
  assume "\<forall>c\<in>set (r_text s). isWhiteSpace c"
  then have "trim (r_text s) = []"
    by (simp only: trim_empty_iff)
  then show "handleSave s res = s"
    by (simp add: handleSave_def)
next
  assume "\<forall>c\<in>set (l_text ls). isWhiteSpace c"
  then have "trim (l_text ls) = []"
    by (simp only: trim_empty_iff)
  then show "handleSave_local ls uuid now = ls"
    by (simp add: handleSave_local_def)
next
  fix c
  assume new: "InsertMessage c \<in> set (r_calls (handleSave s res)) \<and>
        InsertMessage c \<notin> set (r_calls s)"
  show "trim c \<noteq> []"
  proof (cases "trim (r_text s) = []")
    case True
    with new show ?thesis
      by (simp add: handleSave_def)
  next
    case False
    with new have "c = trim (r_text s)"
      by (auto simp: handleSave_def send_def Let_def split: option.splits if_splits)
    with False show ?thesis
      by (simp add: trim_idem)
  qed
next
  fix m
  assume new: "m \<in> set (l_messages (handleSave_local ls uuid now)) \<and>
        m \<notin> set (l_messages ls)"
  show "trim (lm_content m) \<noteq> []"
  proof (cases "trim (l_text ls) = []")
    case True
    with new show ?thesis
      by (simp add: handleSave_local_def)
  next
    case False
    with new have "lm_content m = trim (l_text ls)"
      by (auto simp: handleSave_local_def setMessages_def Let_def)
    with False show ?thesis
      by (simp add: trim_idem)
  qed
qed

theorem save_blank_text_noop_witness:
  "handleSave (editor_init\<lparr>r_text := '' ''\<rparr>)
       \<lparr>res_data = Some \<lparr>m_id = ''1'', m_content = ''hi'', m_created_at = ''t''\<rparr>, res_error = None\<rparr>
     = editor_init\<lparr>r_text := '' ''\<rparr> \<and>
   handleSave_local ((local_init Map.empty)\<lparr>l_text := '' ''\<rparr>) ''u'' ''t''
     = (local_init Map.empty)\<lparr>l_text := '' ''\<rparr> \<and>
   InsertMessage ''hi''
     \<in> set (r_calls (handleSave (editor_init\<lparr>r_text := '' hi ''\<rparr>)
       \<lparr>res_data = Some \<lparr>m_id = ''1'', m_content = ''hi'', m_created_at = ''t''\<rparr>, res_error = None\<rparr>)) \<and>
   \<lparr>lm_id = ''u'', lm_content = ''hi'', lm_createdAt = ''t''\<rparr>
     \<in> set (l_messages (handleSave_local ((local_init Map.empty)\<lparr>l_text := '' hi ''\<rparr>) ''u'' ''t'')) \<and>
   trim ''hi'' \<noteq> []"
proof -
  have ws: "\<forall>c\<in>set '' ''. isWhiteSpace c"
    by (simp add: isWhiteSpace_def)
  have blank:
    "handleSave (editor_init\<lparr>r_text := '' ''\<rparr>)
       \<lparr>res_data = Some \<lparr>m_id = ''1'', m_content = ''hi'', m_created_at = ''t''\<rparr>, res_error = None\<rparr>
     = editor_init\<lparr>r_text := '' ''\<rparr> \<and>
     handleSave_local ((local_init Map.empty)\<lparr>l_text := '' ''\<rparr>) ''u'' ''t''
     = (local_init Map.empty)\<lparr>l_text := '' ''\<rparr>"
    using ws
      save_blank_text_noop
        [where s = "editor_init\<lparr>r_text := '' ''\<rparr>"
           and res = "\<lparr>res_data = Some \<lparr>m_id = ''1'', m_content = ''hi'', m_created_at = ''t''\<rparr>, res_error = None\<rparr>"
           and ls = "(local_init Map.empty)\<lparr>l_text := '' ''\<rparr>"
           and uuid = "''u''" and now = "''t''"]
    by simp
  have t: "trim '' hi '' = ''hi''"
    by (simp add: trim_def isWhiteSpace_def)
  have sent:
    "InsertMessage ''hi''
       \<in> set (r_calls (handleSave (editor_init\<lparr>r_text := '' hi ''\<rparr>)
         \<lparr>res_data = Some \<lparr>m_id = ''1'', m_content = ''hi'', m_created_at = ''t''\<rparr>, res_error = None\<rparr>)) \<and>
     InsertMessage ''hi'' \<notin> set (r_calls (editor_init\<lparr>r_text := '' hi ''\<rparr>))"
    by (simp add: handleSave_def send_def editor_init_def t Let_def)
  have added:
    "\<lparr>lm_id = ''u'', lm_content = ''hi'', lm_createdAt = ''t''\<rparr>
       \<in> set (l_messages (handleSave_local ((local_init Map.empty)\<lparr>l_text := '' hi ''\<rparr>) ''u'' ''t'')) \<and>
     \<lparr>lm_id = ''u'', lm_content = ''hi'', lm_createdAt = ''t''\<rparr>
       \<notin> set (l_messages ((local_init Map.empty)\<lparr>l_text := '' hi ''\<rparr>))"
    by (simp add: handleSave_local_def setMessages_def local_init_def stored_messages_def t Let_def)
  have "trim ''hi'' \<noteq> []"
    using sent
      save_blank_text_noop
        [where s = "editor_init\<lparr>r_text := '' hi ''\<rparr>"
           and res = "\<lparr>res_data = Some \<lparr>m_id = ''1'', m_content = ''hi'', m_created_at = ''t''\<rparr>, res_error = None\<rparr>"]
    by blast
  with blank sent added show ?thesis
    by blast
qed

text \<open>
  C2: when the trimmed input text \<open>T\<close> is not empty, a successful save puts exactly one
  new message in front of the message list, with the trimmed text as its content, leaves
  the messages listed before as they were and in their order, and clears the input. In
  the remote variant the save is successful when the row store answers the insert of the
  trimmed text with the created row and no error; the new message is that row.
\<close>

theorem save_prepends_trimmed_message:
  assumes "trim T \<noteq> []"
  shows
    "(res_data res = Some row \<and> res_error res = None \<and> m_content row = trim T \<longrightarrow>
        r_messages (handleSave (s\<lparr>r_text := T\<rparr>) res) = row # r_messages s \<and>
        m_content (hd (r_messages (handleSave (s\<lparr>r_text := T\<rparr>) res))) = trim T \<and>
        length (r_messages (handleSave (s\<lparr>r_text := T\<rparr>) res)) = Suc (length (r_messages s)) \<and>
        r_calls (handleSave (s\<lparr>r_text := T\<rparr>) res) = r_calls s @ [InsertMessage (trim T)] \<and>
        r_text (handleSave (s\<lparr>r_text := T\<rparr>) res) = []) \<and>
     l_messages (handleSave_local (ls\<lparr>l_text := T\<rparr>) uuid now) =
        \<lparr>lm_id = uuid, lm_content = trim T, lm_createdAt = now\<rparr> # l_messages ls \<and>
     length (l_messages (handleSave_local (ls\<lparr>l_text := T\<rparr>) uuid now)) =
        Suc (length (l_messages ls)) \<and>
     l_text (handleSave_local (ls\<lparr>l_text := T\<rparr>) uuid now) = []"
  using assms
  by (simp add: handleSave_def handleSave_local_def send_def setMessages_def Let_def)

theorem save_prepends_trimmed_message_witness:
  "r_messages
     (handleSave (editor_init\<lparr>r_text := '' hi ''\<rparr>)
        \<lparr>res_data = Some \<lparr>m_id = ''1'', m_content = ''hi'', m_created_at = ''t''\<rparr>,
         res_error = None\<rparr>)
     = [\<lparr>m_id = ''1'', m_content = ''hi'', m_created_at = ''t''\<rparr>] \<and>
   l_messages (handleSave_local ((local_init Map.empty)\<lparr>l_text := '' hi ''\<rparr>) ''u'' ''t'')
     = [\<lparr>lm_id = ''u'', lm_content = ''hi'', lm_createdAt = ''t''\<rparr>]"
proof -
  have t: "trim '' hi '' = ''hi''"
    by (simp add: trim_def isWhiteSpace_def)
  then have ne: "trim '' hi '' \<noteq> []"
    by simp
  show ?thesis
    using save_prepends_trimmed_message
        [OF ne, of "\<lparr>res_data = Some \<lparr>m_id = ''1'', m_content = ''hi'', m_created_at = ''t''\<rparr>,
              res_error = None\<rparr>"
            "\<lparr>m_id = ''1'', m_content = ''hi'', m_created_at = ''t''\<rparr>"
            editor_init "local_init Map.empty" "''u''" "''t''"]
    by (simp add: t editor_init_def local_init_def stored_messages_def)
qed

text \<open>
  C4: in the remote variant, when the insert of a save fails (the row store answers with
  an error or with no row), the message list and the input text stay as they were; when
  the row deletion of \<open>deleteMessage\<close> fails, the message list stays as it was.
\<close>

theorem failed_mutation_keeps_state:
  "((res_data res = None \<or> res_error res \<noteq> None) \<longrightarrow>
      r_messages (handleSave s res) = r_messages s \<and>
      r_text (handleSave s res) = r_text s) \<and>
   (err \<noteq> None \<longrightarrow> r_messages (handleDeleteMessage s i err) = r_messages s)"
  by (auto simp: handleSave_def handleDeleteMessage_def send_def Let_def split: option.splits)

theorem failed_mutation_keeps_state_witness:
  "r_messages
     (handleSave (editor_init\<lparr>r_text := ''hi''\<rparr>) \<lparr>res_data = None, res_error = Some ''down''\<rparr>) = [] \<and>
   r_text
     (handleSave (editor_init\<lparr>r_text := ''hi''\<rparr>) \<lparr>res_data = None, res_error = Some ''down''\<rparr>) = ''hi'' \<and>
   r_messages
     (handleDeleteMessage
        (editor_init\<lparr>r_messages := [\<lparr>m_id = ''1'', m_content = ''a'', m_created_at = ''t''\<rparr>]\<rparr>)
        ''1'' (Some ''down''))
     = [\<lparr>m_id = ''1'', m_content = ''a'', m_created_at = ''t''\<rparr>]"
  using
    failed_mutation_keeps_state
      [where res = "\<lparr>res_data = None, res_error = Some ''down''\<rparr>"
         and s = "editor_init\<lparr>r_text := ''hi''\<rparr>" and err = "Some ''down''"]
    failed_mutation_keeps_state
      [where res = "\<lparr>res_data = None, res_error = Some ''down''\<rparr>"
         and s = "editor_init\<lparr>r_messages := [\<lparr>m_id = ''1'', m_content = ''a'', m_created_at = ''t''\<rparr>]\<rparr>"
         and err = "Some ''down''" and i = "''1''"]
  by (simp add: editor_init_def)

subsection \<open>Deleting\<close>

lemma filter_unlisted: "i \<notin> key ` set xs \<Longrightarrow> filter (\<lambda>x. key x \<noteq> i) xs = xs"
  by (induction xs) auto

lemma filter_single:
  "key m = i \<Longrightarrow> i \<notin> key ` set (pre @ post) \<Longrightarrow>
   filter (\<lambda>x. key x \<noteq> i) (pre @ m # post) = pre @ post"
  by (simp add: filter_unlisted image_Un)

text \<open>
  C6: a successful \<open>deleteMessage\<close> with an id, in either variant, leaves the listed
  messages whose id differs from it, in their order: no message with that id stays, and a
  message with another id is neither removed nor moved. When one listed message has the
  id, the list is the old one without it; when none has, the list is unchanged.
\<close>

theorem delete_message_removes_exactly_id:
  "r_messages (handleDeleteMessage s i None) = filter (\<lambda>m. m_id m \<noteq> i) (r_messages s) \<and>
   l_messages (handleDeleteMessage_local ls i) = filter (\<lambda>m. lm_id m \<noteq> i) (l_messages ls) \<and>
   subseq (r_messages (handleDeleteMessage s i None)) (r_messages s) \<and>
   subseq (l_messages (handleDeleteMessage_local ls i)) (l_messages ls) \<and>
   (r_messages s = pre @ m # post \<and> m_id m = i \<and> i \<notin> m_id ` set (pre @ post) \<longrightarrow>
      r_messages (handleDeleteMessage s i None) = pre @ post) \<and>
   (l_messages ls = lpre @ lm # lpost \<and> lm_id lm = i \<and> i \<notin> lm_id ` set (lpre @ lpost) \<longrightarrow>
      l_messages (handleDeleteMessage_local ls i) = lpre @ lpost) \<and>
   (i \<notin> m_id ` set (r_messages s) \<longrightarrow>
      r_messages (handleDeleteMessage s i None) = r_messages s) \<and>
   (i \<notin> lm_id ` set (l_messages ls) \<longrightarrow>
      l_messages (handleDeleteMessage_local ls i) = l_messages ls)"
proof -
  have r: "r_messages (handleDeleteMessage s i None) = filter (\<lambda>m. m_id m \<noteq> i) (r_messages s)"
    by (simp add: handleDeleteMessage_def send_def Let_def)
  have l: "l_messages (handleDeleteMessage_local ls i) = filter (\<lambda>m. lm_id m \<noteq> i) (l_messages ls)"
    by (simp add: handleDeleteMessage_local_def setMessages_def)
  have rs: "subseq (filter (\<lambda>m. m_id m \<noteq> i) (r_messages s)) (r_messages s)"
    by (rule subseq_filter_left)
  have lsub: "subseq (filter (\<lambda>m. lm_id m \<noteq> i) (l_messages ls)) (l_messages ls)"
    by (rule subseq_filter_left)
  have r1: "r_messages s = pre @ m # post \<and> m_id m = i \<and> i \<notin> m_id ` set (pre @ post) \<longrightarrow>
      filter (\<lambda>m. m_id m \<noteq> i) (r_messages s) = pre @ post"
    using filter_single [of m_id m i pre post] by auto
  have l1: "l_messages ls = lpre @ lm # lpost \<and> lm_id lm = i \<and> i \<notin> lm_id ` set (lpre @ lpost) \<longrightarrow>
      filter (\<lambda>m. lm_id m \<noteq> i) (l_messages ls) = lpre @ lpost"
    using filter_single [of lm_id lm i lpre lpost] by auto
  have r0: "i \<notin> m_id ` set (r_messages s) \<longrightarrow>
      filter (\<lambda>m. m_id m \<noteq> i) (r_messages s) = r_messages s"
    using filter_unlisted [of i m_id "r_messages s"] by blast
  have l0: "i \<notin> lm_id ` set (l_messages ls) \<longrightarrow>
      filter (\<lambda>m. lm_id m \<noteq> i) (l_messages ls) = l_messages ls"
    using filter_unlisted [of i lm_id "l_messages ls"] by blast
  show ?thesis
    unfolding r l using rs lsub r1 l1 r0 l0 by blast
qed

theorem delete_message_removes_exactly_id_witness:
  "r_messages
     (handleDeleteMessage
        (editor_init\<lparr>r_messages :=
           [\<lparr>m_id = ''3'', m_content = ''c'', m_created_at = ''t3''\<rparr>,
            \<lparr>m_id = ''2'', m_content = ''b'', m_created_at = ''t2''\<rparr>,
            \<lparr>m_id = ''1'', m_content = ''a'', m_created_at = ''t1''\<rparr>]\<rparr>)
        ''2'' None)
     = [\<lparr>m_id = ''3'', m_content = ''c'', m_created_at = ''t3''\<rparr>,
        \<lparr>m_id = ''1'', m_content = ''a'', m_created_at = ''t1''\<rparr>] \<and>
   l_messages
     (handleDeleteMessage_local
        ((local_init Map.empty)\<lparr>l_messages :=
           [\<lparr>lm_id = ''3'', lm_content = ''c'', lm_createdAt = ''t3''\<rparr>,
            \<lparr>lm_id = ''1'', lm_content = ''a'', lm_createdAt = ''t1''\<rparr>]\<rparr>)
        ''2'')
     = [\<lparr>lm_id = ''3'', lm_content = ''c'', lm_createdAt = ''t3''\<rparr>,
        \<lparr>lm_id = ''1'', lm_content = ''a'', lm_createdAt = ''t1''\<rparr>]"
  using
    delete_message_removes_exactly_id
      [where s = "editor_init\<lparr>r_messages :=
           [\<lparr>m_id = ''3'', m_content = ''c'', m_created_at = ''t3''\<rparr>,
            \<lparr>m_id = ''2'', m_content = ''b'', m_created_at = ''t2''\<rparr>,
            \<lparr>m_id = ''1'', m_content = ''a'', m_created_at = ''t1''\<rparr>]\<rparr>"
         and i = "''2''"
         and pre = "[\<lparr>m_id = ''3'', m_content = ''c'', m_created_at = ''t3''\<rparr>]"
         and m = "\<lparr>m_id = ''2'', m_content = ''b'', m_created_at = ''t2''\<rparr>"
         and post = "[\<lparr>m_id = ''1'', m_content = ''a'', m_created_at = ''t1''\<rparr>]"
         and ls = "(local_init Map.empty)\<lparr>l_messages :=
           [\<lparr>lm_id = ''3'', lm_content = ''c'', lm_createdAt = ''t3''\<rparr>,
            \<lparr>lm_id = ''1'', lm_content = ''a'', lm_createdAt = ''t1''\<rparr>]\<rparr>"]
  by (simp add: editor_init_def)

text \<open>
  C7: \<open>deleteFile\<close> of the remote variant takes the blob's storage key from the last
  segment of the file's URL and asks the blob store to remove it (when the segment is not
  empty); whatever the blob store answers, it then sends the deletion of the metadata
  row, and the resulting state does not depend on that answer. The file leaves the
  in-memory list exactly when the row deletion succeeds.
\<close>

theorem delete_file_best_effort_blob:
  "r_calls (handleDeleteFile s item removeErr err) =
     r_calls s @
     (if pop (split_js CHR ''/'' (f_url item)) \<noteq> []
      then [StorageRemove [pop (split_js CHR ''/'' (f_url item))]] else []) @
     [DeleteFileEq (f_id item)] \<and>
   handleDeleteFile s item removeErr err = handleDeleteFile s item removeErr' err \<and>
   r_files (handleDeleteFile s item removeErr err) =
     (if err = None then filter (\<lambda>f. f_id f \<noteq> f_id item) (r_files s) else r_files s) \<and>
   (item \<in> set (r_files s) \<longrightarrow>
      (item \<notin> set (r_files (handleDeleteFile s item removeErr err)) \<longleftrightarrow> err = None))"
  by (auto simp: handleDeleteFile_def send_def Let_def)

theorem delete_file_best_effort_blob_witness:
  "r_calls
     (handleDeleteFile
        (editor_init\<lparr>r_files :=
           [\<lparr>f_id = ''7'', f_name = ''a.png'', f_size = 10, f_type = ''image/png'',
             f_url = ''https://h/files/u.png'', f_created_at = ''t''\<rparr>]\<rparr>)
        \<lparr>f_id = ''7'', f_name = ''a.png'', f_size = 10, f_type = ''image/png'',
          f_url = ''https://h/files/u.png'', f_created_at = ''t''\<rparr>
        (Some ''blob store down'') None)
     = [StorageRemove [''u.png''], DeleteFileEq ''7''] \<and>
   r_files
     (handleDeleteFile
        (editor_init\<lparr>r_files :=
           [\<lparr>f_id = ''7'', f_name = ''a.png'', f_size = 10, f_type = ''image/png'',
             f_url = ''https://h/files/u.png'', f_created_at = ''t''\<rparr>]\<rparr>)
        \<lparr>f_id = ''7'', f_name = ''a.png'', f_size = 10, f_type = ''image/png'',
          f_url = ''https://h/files/u.png'', f_created_at = ''t''\<rparr>
        (Some ''blob store down'') None)
     = []"
proof -
  show ?thesis
    using
      delete_file_best_effort_blob
        [where s = "editor_init\<lparr>r_files :=
             [\<lparr>f_id = ''7'', f_name = ''a.png'', f_size = 10, f_type = ''image/png'',
               f_url = ''https://h/files/u.png'', f_created_at = ''t''\<rparr>]\<rparr>"
           and item = "\<lparr>f_id = ''7'', f_name = ''a.png'', f_size = 10, f_type = ''image/png'',
               f_url = ''https://h/files/u.png'', f_created_at = ''t''\<rparr>"
           and removeErr = "Some ''blob store down''" and err = None]
    by (simp add: pop_def editor_init_def)
qed

subsection \<open>Uploading a batch to the remote stores\<close>

lemma upload_one_files:
  "r_files (upload_one s fa) =
     (if uploadError (snd fa) = None \<and> res_error (insertRes (snd fa)) = None
      then (case res_data (insertRes (snd fa)) of Some row \<Rightarrow> [row] | None \<Rightarrow> [])
      else []) @ r_files s"
  by (simp add: upload_one_def send_def Let_def split: option.splits)

lemma upload_one_calls:
  "r_calls (upload_one s fa) =
     r_calls s @
     StorageUpload (storage_key (fst fa) (snd fa)) (fst fa) #
     (if uploadError (snd fa) = None
      then [GetPublicUrl (storage_key (fst fa) (snd fa)),
            InsertFile (file_name (fst fa)) (file_size (fst fa)) (file_type (fst fa))
              (publicUrl (snd fa))]
      else [])"
  by (simp add: upload_one_def send_def Let_def split: option.splits)

lemma upload_one_frame:
  "r_messages (upload_one s fa) = r_messages s \<and> r_text (upload_one s fa) = r_text s"
  by (simp add: upload_one_def send_def Let_def split: option.splits)

lemma upload_loop_frame:
  "r_messages (upload_loop s batch) = r_messages s \<and> r_text (upload_loop s batch) = r_text s"
  by (induction batch arbitrary: s) (simp_all add: upload_one_frame)

lemma upload_loop_files:
  "r_files (upload_loop s batch) =
     rev (concat (map (\<lambda>fa.
            if uploadError (snd fa) = None \<and> res_error (insertRes (snd fa)) = None
            then (case res_data (insertRes (snd fa)) of Some row \<Rightarrow> [row] | None \<Rightarrow> [])
            else []) batch)) @ r_files s"
  by (induction batch arbitrary: s) (auto simp: upload_one_files split: option.splits)

lemma upload_loop_calls_mono: "set (r_calls s) \<subseteq> set (r_calls (upload_loop s batch))"
proof (induction batch arbitrary: s)
  case Nil
  show ?case by simp
next
  case (Cons fa rest)
  have "set (r_calls s) \<subseteq> set (r_calls (upload_one s fa))"
    by (auto simp: upload_one_calls)
  also have "\<dots> \<subseteq> set (r_calls (upload_loop (upload_one s fa) rest))"
    by (rule Cons.IH)
  finally show ?case by simp
qed

lemma upload_loop_attempts_all:
  "fa \<in> set batch \<Longrightarrow>
   StorageUpload (storage_key (fst fa) (snd fa)) (fst fa) \<in> set (r_calls (upload_loop s batch)) \<and>
   (uploadError (snd fa) = None \<longrightarrow>
      InsertFile (file_name (fst fa)) (file_size (fst fa)) (file_type (fst fa)) (publicUrl (snd fa))
        \<in> set (r_calls (upload_loop s batch)))"
proof (induction batch arbitrary: s)
  case Nil
  then show ?case by simp
next
  case (Cons x rest)
  show ?case
  proof (cases "fa = x")
    case True
    have "StorageUpload (storage_key (fst fa) (snd fa)) (fst fa) \<in> set (r_calls (upload_one s fa)) \<and>
      (uploadError (snd fa) = None \<longrightarrow>
        InsertFile (file_name (fst fa)) (file_size (fst fa)) (file_type (fst fa)) (publicUrl (snd fa))
          \<in> set (r_calls (upload_one s fa)))"
      by (simp add: upload_one_calls)
    with True upload_loop_calls_mono [of "upload_one s x" rest] show ?thesis
      by auto
  next
    case False
    with Cons.prems have "fa \<in> set rest" by simp
    then show ?thesis
      using Cons.IH [of "upload_one s x"] by simp
  qed
qed

lemma all_inserted_rows:
  "\<forall>fa\<in>set batch. uploadError (snd fa) = None \<and> res_error (insertRes (snd fa)) = None \<Longrightarrow>
   map (\<lambda>fa. res_data (insertRes (snd fa))) batch = map Some rows \<Longrightarrow>
   concat (map (\<lambda>fa.
            if uploadError (snd fa) = None \<and> res_error (insertRes (snd fa)) = None
            then (case res_data (insertRes (snd fa)) of Some row \<Rightarrow> [row] | None \<Rightarrow> [])
            else []) batch) = rows"
proof (induction batch arbitrary: rows)
  case Nil
  then show ?case by simp
next
  case (Cons x rest)
  then obtain r rs where rows: "rows = r # rs"
    by (cases rows) auto
  with Cons.prems have "res_data (insertRes (snd x)) = Some r"
    and "map (\<lambda>fa. res_data (insertRes (snd fa))) rest = map Some rs"
    by auto
  with Cons rows show ?case by simp
qed

lemma handleFileUpload_loop:
  "r_files (handleFileUpload s (Some batch)) = r_files (upload_loop (s\<lparr>r_isLoading := True\<rparr>) batch) \<and>
   r_calls (handleFileUpload s (Some batch)) = r_calls (upload_loop (s\<lparr>r_isLoading := True\<rparr>) batch) \<and>
   r_messages (handleFileUpload s (Some batch)) = r_messages (upload_loop (s\<lparr>r_isLoading := True\<rparr>) batch)"
  by (simp add: handleFileUpload_def)

text \<open>
  C3: in \<open>uploadFiles\<close> of the remote variant over a batch of \<open>N\<close> files, when the blob
  upload of exactly one file fails and every step for the other files succeeds, the rows
  of the other \<open>N - 1\<close> files, and nothing else, are added to the file list, each in front
  of the earlier ones; and the files after the failing one are processed: their blobs are
  uploaded and their rows inserted.
\<close>

theorem upload_batch_skips_failed_file:
  assumes "uploadError (snd bad) \<noteq> None"
    and "\<forall>fa\<in>set (pre @ post).
           uploadError (snd fa) = None \<and> res_error (insertRes (snd fa)) = None"
    and "map (\<lambda>fa. res_data (insertRes (snd fa))) (pre @ post) = map Some rows"
  shows
    "r_files (handleFileUpload s (Some (pre @ bad # post))) = rev rows @ r_files s \<and>
     length (r_files (handleFileUpload s (Some (pre @ bad # post)))) + 1 =
       length (r_files s) + length (pre @ bad # post) \<and>
     (\<forall>fa\<in>set post.
        StorageUpload (storage_key (fst fa) (snd fa)) (fst fa)
          \<in> set (r_calls (handleFileUpload s (Some (pre @ bad # post)))) \<and>
        InsertFile (file_name (fst fa)) (file_size (fst fa)) (file_type (fst fa)) (publicUrl (snd fa))
          \<in> set (r_calls (handleFileUpload s (Some (pre @ bad # post)))))"
proof -
  let ?added = "\<lambda>fa.
            if uploadError (snd fa) = None \<and> res_error (insertRes (snd fa)) = None
            then (case res_data (insertRes (snd fa)) of Some row \<Rightarrow> [row] | None \<Rightarrow> [])
            else []"
  have "concat (map ?added (pre @ bad # post)) = concat (map ?added (pre @ post))"
    using assms(1) by auto
  also have "\<dots> = rows"
    using assms(2,3) by (rule all_inserted_rows)
  finally have files:
    "r_files (handleFileUpload s (Some (pre @ bad # post))) = rev rows @ r_files s"
    by (simp add: handleFileUpload_loop upload_loop_files)
  have "length rows = length (pre @ post)"
    using assms(3) by (metis length_map)
  with files have len:
    "length (r_files (handleFileUpload s (Some (pre @ bad # post)))) + 1 =
       length (r_files s) + length (pre @ bad # post)"
    by simp
  have later: "\<forall>fa\<in>set post.
        StorageUpload (storage_key (fst fa) (snd fa)) (fst fa)
          \<in> set (r_calls (handleFileUpload s (Some (pre @ bad # post)))) \<and>
        InsertFile (file_name (fst fa)) (file_size (fst fa)) (file_type (fst fa)) (publicUrl (snd fa))
          \<in> set (r_calls (handleFileUpload s (Some (pre @ bad # post))))"
  proof
    fix fa
    assume "fa \<in> set post"
    then have "fa \<in> set (pre @ bad # post)" and "uploadError (snd fa) = None"
      using assms(2) by auto
    then show "StorageUpload (storage_key (fst fa) (snd fa)) (fst fa)
          \<in> set (r_calls (handleFileUpload s (Some (pre @ bad # post)))) \<and>
        InsertFile (file_name (fst fa)) (file_size (fst fa)) (file_type (fst fa)) (publicUrl (snd fa))
          \<in> set (r_calls (handleFileUpload s (Some (pre @ bad # post))))"
      using upload_loop_attempts_all [of fa "pre @ bad # post" "s\<lparr>r_isLoading := True\<rparr>"]
      by (simp add: handleFileUpload_loop)
  qed
  from files len later show ?thesis by blast
qed

theorem upload_batch_skips_failed_file_witness:
  "r_files (handleFileUpload editor_init (Some
     [(\<lparr>file_name = ''a.txt'', file_size = 1, file_type = ''text/plain''\<rparr>,
       \<lparr>randomUUID = ''u1'', uploadError = None, publicUrl = ''https://h/u1.txt'', insertRes = \<lparr>res_data = Some \<lparr>f_id = ''1'', f_name = ''a.txt'', f_size = 1, f_type = ''text/plain'', f_url = ''https://h/u1.txt'', f_created_at = ''t1''\<rparr>, res_error = None\<rparr>\<rparr>),
      (\<lparr>file_name = ''bb.txt'', file_size = 2, file_type = ''text/plain''\<rparr>,
       \<lparr>randomUUID = ''u2'', uploadError = Some ''too large'', publicUrl = ''https://h/u2.txt'', insertRes = \<lparr>res_data = None, res_error = None\<rparr>\<rparr>),
      (\<lparr>file_name = ''ccc.txt'', file_size = 3, file_type = ''text/plain''\<rparr>,
       \<lparr>randomUUID = ''u3'', uploadError = None, publicUrl = ''https://h/u3.txt'', insertRes = \<lparr>res_data = Some \<lparr>f_id = ''3'', f_name = ''ccc.txt'', f_size = 3, f_type = ''text/plain'', f_url = ''https://h/u3.txt'', f_created_at = ''t3''\<rparr>, res_error = None\<rparr>\<rparr>)]))
     = [\<lparr>f_id = ''3'', f_name = ''ccc.txt'', f_size = 3, f_type = ''text/plain'', f_url = ''https://h/u3.txt'', f_created_at = ''t3''\<rparr>,
        \<lparr>f_id = ''1'', f_name = ''a.txt'', f_size = 1, f_type = ''text/plain'', f_url = ''https://h/u1.txt'', f_created_at = ''t1''\<rparr>] \<and>
   StorageUpload ''u3.txt'' \<lparr>file_name = ''ccc.txt'', file_size = 3, file_type = ''text/plain''\<rparr>
     \<in> set (r_calls (handleFileUpload editor_init (Some
     [(\<lparr>file_name = ''a.txt'', file_size = 1, file_type = ''text/plain''\<rparr>,
       \<lparr>randomUUID = ''u1'', uploadError = None, publicUrl = ''https://h/u1.txt'', insertRes = \<lparr>res_data = Some \<lparr>f_id = ''1'', f_name = ''a.txt'', f_size = 1, f_type = ''text/plain'', f_url = ''https://h/u1.txt'', f_created_at = ''t1''\<rparr>, res_error = None\<rparr>\<rparr>),
      (\<lparr>file_name = ''bb.txt'', file_size = 2, file_type = ''text/plain''\<rparr>,
       \<lparr>randomUUID = ''u2'', uploadError = Some ''too large'', publicUrl = ''https://h/u2.txt'', insertRes = \<lparr>res_data = None, res_error = None\<rparr>\<rparr>),
      (\<lparr>file_name = ''ccc.txt'', file_size = 3, file_type = ''text/plain''\<rparr>,
       \<lparr>randomUUID = ''u3'', uploadError = None, publicUrl = ''https://h/u3.txt'', insertRes = \<lparr>res_data = Some \<lparr>f_id = ''3'', f_name = ''ccc.txt'', f_size = 3, f_type = ''text/plain'', f_url = ''https://h/u3.txt'', f_created_at = ''t3''\<rparr>, res_error = None\<rparr>\<rparr>)])))"
  using
    upload_batch_skips_failed_file
      [where pre = "[(\<lparr>file_name = ''a.txt'', file_size = 1, file_type = ''text/plain''\<rparr>,
       \<lparr>randomUUID = ''u1'', uploadError = None, publicUrl = ''https://h/u1.txt'', insertRes = \<lparr>res_data = Some \<lparr>f_id = ''1'', f_name = ''a.txt'', f_size = 1, f_type = ''text/plain'', f_url = ''https://h/u1.txt'', f_created_at = ''t1''\<rparr>, res_error = None\<rparr>\<rparr>)]"
         and bad = "(\<lparr>file_name = ''bb.txt'', file_size = 2, file_type = ''text/plain''\<rparr>,
       \<lparr>randomUUID = ''u2'', uploadError = Some ''too large'', publicUrl = ''https://h/u2.txt'', insertRes = \<lparr>res_data = None, res_error = None\<rparr>\<rparr>)"
         and post = "[(\<lparr>file_name = ''ccc.txt'', file_size = 3, file_type = ''text/plain''\<rparr>,
       \<lparr>randomUUID = ''u3'', uploadError = None, publicUrl = ''https://h/u3.txt'', insertRes = \<lparr>res_data = Some \<lparr>f_id = ''3'', f_name = ''ccc.txt'', f_size = 3, f_type = ''text/plain'', f_url = ''https://h/u3.txt'', f_created_at = ''t3''\<rparr>, res_error = None\<rparr>\<rparr>)]"
         and rows = "[\<lparr>f_id = ''1'', f_name = ''a.txt'', f_size = 1, f_type = ''text/plain'', f_url = ''https://h/u1.txt'', f_created_at = ''t1''\<rparr>,
        \<lparr>f_id = ''3'', f_name = ''ccc.txt'', f_size = 3, f_type = ''text/plain'', f_url = ''https://h/u3.txt'', f_created_at = ''t3''\<rparr>]"
         and s = editor_init]
  by (simp add: editor_init_def storage_key_def pop_def)

subsection \<open>The two lists are independent\<close>

text \<open>
  C10: in both variants, saving a message, deleting one and deleting all of them leave
  the file list as it was, and uploading files, deleting one and deleting all of them
  leave the message list as it was.
\<close>

theorem message_and_file_lists_independent:
  "r_files (handleSave s res) = r_files s \<and>
   r_files (handleDeleteMessage s i err) = r_files s \<and>
   r_files (handleDeleteAllMessages s confirm err) = r_files s \<and>
   r_messages (handleFileUpload s uploadedFiles) = r_messages s \<and>
   r_messages (handleDeleteFile s item removeErr err) = r_messages s \<and>
   r_messages (handleDeleteAllFiles s confirm removeErr err) = r_messages s \<and>
   l_files (handleSave_local ls uuid now) = l_files ls \<and>
   l_files (handleDeleteMessage_local ls i) = l_files ls \<and>
   l_files (handleDeleteAllMessages_local ls confirm) = l_files ls \<and>
   l_messages (handleFileUpload_local ls readFiles) = l_messages ls \<and>
   l_messages (handleDeleteFile_local ls i) = l_messages ls \<and>
   l_messages (handleDeleteAllFiles_local ls confirm) = l_messages ls"
proof (intro conjI)
  show "r_files (handleSave s res) = r_files s"
    by (simp add: handleSave_def send_def Let_def split: option.splits)
  show "r_files (handleDeleteMessage s i err) = r_files s"
    by (simp add: handleDeleteMessage_def send_def Let_def)
  show "r_files (handleDeleteAllMessages s confirm err) = r_files s"
    by (simp add: handleDeleteAllMessages_def send_def Let_def)
  show "r_messages (handleFileUpload s uploadedFiles) = r_messages s"
    by (cases uploadedFiles) (simp_all add: handleFileUpload_def upload_loop_frame)
  show "r_messages (handleDeleteFile s item removeErr err) = r_messages s"
    by (simp add: handleDeleteFile_def send_def Let_def)
  show "r_messages (handleDeleteAllFiles s confirm removeErr err) = r_messages s"
    by (simp add: handleDeleteAllFiles_def send_def Let_def)
  show "l_files (handleSave_local ls uuid now) = l_files ls"
    by (simp add: handleSave_local_def setMessages_def Let_def)
  show "l_files (handleDeleteMessage_local ls i) = l_files ls"
    by (simp add: handleDeleteMessage_local_def setMessages_def)
  show "l_files (handleDeleteAllMessages_local ls confirm) = l_files ls"
    by (simp add: handleDeleteAllMessages_local_def setMessages_def)
  show "l_messages (handleFileUpload_local ls readFiles) = l_messages ls"
    by (simp add: handleFileUpload_local_def setFiles_def Let_def split: option.splits)
  show "l_messages (handleDeleteFile_local ls i) = l_messages ls"
    by (simp add: handleDeleteFile_local_def setFiles_def)
  show "l_messages (handleDeleteAllFiles_local ls confirm) = l_messages ls"
    by (simp add: handleDeleteAllFiles_local_def setFiles_def)
qed

subsection \<open>Reloading the local variant\<close>

lemma keys_differ: "MESSAGES_KEY \<noteq> FILES_KEY"
  by (simp add: MESSAGES_KEY_def FILES_KEY_def)

lemma setMessages_mirrored:
  "stored_files (l_storage s) FILES_KEY [] = l_files s \<Longrightarrow>
   stored_messages (l_storage (setMessages upd s)) MESSAGES_KEY [] = l_messages (setMessages upd s) \<and>
   stored_files (l_storage (setMessages upd s)) FILES_KEY [] = l_files (setMessages upd s)"
  using keys_differ by (simp add: setMessages_def stored_messages_def stored_files_def)

lemma setFiles_mirrored:
  "stored_messages (l_storage s) MESSAGES_KEY [] = l_messages s \<Longrightarrow>
   stored_messages (l_storage (setFiles upd s)) MESSAGES_KEY [] = l_messages (setFiles upd s) \<and>
   stored_files (l_storage (setFiles upd s)) FILES_KEY [] = l_files (setFiles upd s)"
  using keys_differ by (simp add: setFiles_def stored_messages_def stored_files_def)

lemma local_init_mirrored:
  "stored_messages (l_storage (local_init st)) MESSAGES_KEY [] = l_messages (local_init st) \<and>
   stored_files (l_storage (local_init st)) FILES_KEY [] = l_files (local_init st)"
  by (simp add: local_init_def)

lemma local_step_mirrored:
  assumes "stored_messages (l_storage s) MESSAGES_KEY [] = l_messages s \<and>
           stored_files (l_storage s) FILES_KEY [] = l_files s"
  shows "stored_messages (l_storage (local_step s ev)) MESSAGES_KEY [] = l_messages (local_step s ev) \<and>
         stored_files (l_storage (local_step s ev)) FILES_KEY [] = l_files (local_step s ev)"
proof (cases ev)
  case (SetText t)
  with assms show ?thesis by simp
next
  case (Save uuid now)
  show ?thesis
  proof (cases "trim (l_text s) = []")
    case True
    with assms Save show ?thesis by (simp add: handleSave_local_def)
  next
    case False
    with Save assms
      setMessages_mirrored
        [of s "\<lambda>prev. \<lparr>lm_id = uuid, lm_content = trim (l_text s), lm_createdAt = now\<rparr> # prev"]
    show ?thesis
      by (simp add: handleSave_local_def Let_def)
  qed
next
  case Reset
  with assms show ?thesis by (simp add: handleReset_local_def)
next
  case (DeleteMessage i)
  with assms setMessages_mirrored [of s "\<lambda>prev. filter (\<lambda>m. lm_id m \<noteq> i) prev"]
  show ?thesis by (simp add: handleDeleteMessage_local_def)
next
  case (DeleteAllMessages confirm)
  with assms setMessages_mirrored [of s "\<lambda>prev. []"]
  show ?thesis by (simp add: handleDeleteAllMessages_local_def)
next
  case (FileUpload uploadedFiles)
  show ?thesis
  proof (cases uploadedFiles)
    case None
    with assms FileUpload show ?thesis by (simp add: handleFileUpload_local_def)
  next
    case (Some batch)
    show ?thesis
    proof (cases "read_loop [] batch")
      case None
      with assms FileUpload Some show ?thesis
        by (simp add: handleFileUpload_local_def)
    next
      case (Some newFiles)
      with assms FileUpload \<open>uploadedFiles = Some batch\<close>
        setFiles_mirrored [of "s\<lparr>l_isLoading := True\<rparr>" "\<lambda>prev. newFiles @ prev"]
      show ?thesis
        by (simp add: handleFileUpload_local_def)
    qed
  qed
next
  case (DeleteFile i)
  with assms setFiles_mirrored [of s "\<lambda>prev. filter (\<lambda>f. lf_id f \<noteq> i) prev"]
  show ?thesis by (simp add: handleDeleteFile_local_def)
next
  case (DeleteAllFiles confirm)
  with assms setFiles_mirrored [of s "\<lambda>prev. []"]
  show ?thesis by (simp add: handleDeleteAllFiles_local_def)
qed

lemma local_run_mirrored:
  "stored_messages (l_storage s) MESSAGES_KEY [] = l_messages s \<and>
   stored_files (l_storage s) FILES_KEY [] = l_files s \<Longrightarrow>
   stored_messages (l_storage (local_run s evs)) MESSAGES_KEY [] = l_messages (local_run s evs) \<and>
   stored_files (l_storage (local_run s evs)) FILES_KEY [] = l_files (local_run s evs)"
proof (induction evs arbitrary: s)
  case Nil
  then show ?case by (simp add: local_run_def)
next
  case (Cons ev evs)
  from Cons.prems have "stored_messages (l_storage (local_step s ev)) MESSAGES_KEY [] = l_messages (local_step s ev) \<and>
         stored_files (l_storage (local_step s ev)) FILES_KEY [] = l_files (local_step s ev)"
    by (rule local_step_mirrored)
  then have "stored_messages (l_storage (local_run (local_step s ev) evs)) MESSAGES_KEY [] =
           l_messages (local_run (local_step s ev) evs) \<and>
         stored_files (l_storage (local_run (local_step s ev) evs)) FILES_KEY [] =
           l_files (local_run (local_step s ev) evs)"
    by (rule Cons.IH)
  then show ?case by (simp add: local_run_def)
qed

text \<open>
  C8: in the local variant, start from any content of the persistent store and let any
  finite sequence of actions run (saving, deleting one, deleting all, uploading, typing,
  resetting). Reading the two fixed keys again, as a page load does, gives a message list
  and a file list equal to the ones in memory at the end of the sequence.
\<close>

theorem reload_reproduces_lists:
  "l_messages (reload (local_run (local_init st) evs)) = l_messages (local_run (local_init st) evs) \<and>
   l_files (reload (local_run (local_init st) evs)) = l_files (local_run (local_init st) evs)"
  using local_run_mirrored [OF local_init_mirrored, of st evs]
  by (simp add: reload_def local_init_def)

theorem reload_reproduces_lists_witness:
  "l_messages
     (reload (local_run (local_init Map.empty)
        [SetText '' hi '', Save ''u1'' ''2024-01-01T00:00:00.000Z'',
         SetText ''yo'', Save ''u2'' ''2024-01-01T00:00:01.000Z'',
         DeleteMessage ''u1'', DeleteAllFiles True]))
     = [\<lparr>lm_id = ''u2'', lm_content = ''yo'', lm_createdAt = ''2024-01-01T00:00:01.000Z''\<rparr>] \<and>
   l_files
     (reload (local_run (local_init Map.empty)
        [SetText '' hi '', Save ''u1'' ''2024-01-01T00:00:00.000Z'',
         SetText ''yo'', Save ''u2'' ''2024-01-01T00:00:01.000Z'',
         DeleteMessage ''u1'', DeleteAllFiles True]))
     = []"
proof -
  have run: "l_messages (local_run (local_init Map.empty)
        [SetText '' hi '', Save ''u1'' ''2024-01-01T00:00:00.000Z'',
         SetText ''yo'', Save ''u2'' ''2024-01-01T00:00:01.000Z'',
         DeleteMessage ''u1'', DeleteAllFiles True])
     = [\<lparr>lm_id = ''u2'', lm_content = ''yo'', lm_createdAt = ''2024-01-01T00:00:01.000Z''\<rparr>] \<and>
     l_files (local_run (local_init Map.empty)
        [SetText '' hi '', Save ''u1'' ''2024-01-01T00:00:00.000Z'',
         SetText ''yo'', Save ''u2'' ''2024-01-01T00:00:01.000Z'',
         DeleteMessage ''u1'', DeleteAllFiles True])
     = []"
    by (simp add: local_run_def local_init_def handleSave_local_def
        handleDeleteMessage_local_def handleDeleteAllFiles_local_def setMessages_def
        setFiles_def stored_messages_def stored_files_def trim_def isWhiteSpace_def Let_def)
  show ?thesis
    using run
      reload_reproduces_lists
        [where st = Map.empty
           and evs = "[SetText '' hi '', Save ''u1'' ''2024-01-01T00:00:00.000Z'',
         SetText ''yo'', Save ''u2'' ''2024-01-01T00:00:01.000Z'',
         DeleteMessage ''u1'', DeleteAllFiles True]"]
    by simp
qed

subsection \<open>The order of the lists\<close>

text \<open>
  Saving and deleting keep a list newest first: a message stamped no earlier than the
  listed ones goes in front, and filtering keeps the order.
\<close>

lemma save_keeps_newest_first:
  "newest_first_messages (l_messages ls) \<Longrightarrow>
   \<forall>m\<in>set (l_messages ls). lm_createdAt m \<le> now \<Longrightarrow>
   newest_first_messages (l_messages (handleSave_local ls uuid now))"
  by (simp add: handleSave_local_def setMessages_def newest_first_messages_def Let_def)

lemma delete_keeps_newest_first:
  "newest_first_messages (l_messages ls) \<Longrightarrow>
   newest_first_messages (l_messages (handleDeleteMessage_local ls i))"
  by (simp add: handleDeleteMessage_local_def setMessages_def newest_first_messages_def
      sorted_wrt_filter)

lemma delete_file_keeps_newest_first:
  "newest_first_files (l_files ls) \<Longrightarrow>
   newest_first_files (l_files (handleDeleteFile_local ls i))"
  by (simp add: handleDeleteFile_local_def setFiles_def newest_first_files_def
      sorted_wrt_filter)

text \<open>
  The remote upload puts each row in front as it arrives: for a batch of two files whose
  rows the store stamps in sequence, the later row comes first.
\<close>

lemma remote_upload_batch_newest_first:
  "r_files
     (handleFileUpload editor_init
        (Some
          [(\<lparr>file_name = ''a.txt'', file_size = 1, file_type = ''text/plain''\<rparr>,
            \<lparr>randomUUID = ''u1'', uploadError = None, publicUrl = ''https://h/u1.txt'',
              insertRes =
                \<lparr>res_data = Some
                   \<lparr>f_id = ''1'', f_name = ''a.txt'', f_size = 1, f_type = ''text/plain'',
                     f_url = ''https://h/u1.txt'', f_created_at = ''2024-01-01T00:00:00.000Z''\<rparr>,
                 res_error = None\<rparr>\<rparr>),
           (\<lparr>file_name = ''b.txt'', file_size = 2, file_type = ''text/plain''\<rparr>,
            \<lparr>randomUUID = ''u2'', uploadError = None, publicUrl = ''https://h/u2.txt'',
              insertRes =
                \<lparr>res_data = Some
                   \<lparr>f_id = ''2'', f_name = ''b.txt'', f_size = 2, f_type = ''text/plain'',
                     f_url = ''https://h/u2.txt'', f_created_at = ''2024-01-01T00:00:00.001Z''\<rparr>,
                 res_error = None\<rparr>\<rparr>)]))
     = [\<lparr>f_id = ''2'', f_name = ''b.txt'', f_size = 2, f_type = ''text/plain'',
          f_url = ''https://h/u2.txt'', f_created_at = ''2024-01-01T00:00:00.001Z''\<rparr>,
        \<lparr>f_id = ''1'', f_name = ''a.txt'', f_size = 1, f_type = ''text/plain'',
          f_url = ''https://h/u1.txt'', f_created_at = ''2024-01-01T00:00:00.000Z''\<rparr>] \<and>
   newest_first_rows
     [\<lparr>f_id = ''2'', f_name = ''b.txt'', f_size = 2, f_type = ''text/plain'',
        f_url = ''https://h/u2.txt'', f_created_at = ''2024-01-01T00:00:00.001Z''\<rparr>,
      \<lparr>f_id = ''1'', f_name = ''a.txt'', f_size = 1, f_type = ''text/plain'',
        f_url = ''https://h/u1.txt'', f_created_at = ''2024-01-01T00:00:00.000Z''\<rparr>]"
  by (simp add: handleFileUpload_def upload_one_def send_def editor_init_def Let_def
      newest_first_rows_def)

text \<open>
  C1: the lists are to be newest first, new items going in front; in particular the file
  list after \<open>uploadFiles\<close> of the local variant on a batch of several files, each stamped
  in sequence. The local handler collects the batch in reading order and puts it in front
  as a whole: for two files read one millisecond apart into an empty list, the result
  has the older file first and is not newest first.
\<close>

theorem local_upload_batch_oldest_first:
  "l_files
     (handleFileUpload_local (local_init Map.empty)
        (Some
          [(\<lparr>file_name = ''a.txt'', file_size = 1, file_type = ''text/plain''\<rparr>,
            \<lparr>readResult = Some ''data:text/plain;base64,YQ=='', fileUUID = ''u1'',
              fileNow = ''2024-01-01T00:00:00.000Z''\<rparr>),
           (\<lparr>file_name = ''b.txt'', file_size = 2, file_type = ''text/plain''\<rparr>,
            \<lparr>readResult = Some ''data:text/plain;base64,YmI='', fileUUID = ''u2'',
              fileNow = ''2024-01-01T00:00:00.001Z''\<rparr>)]))
     = [\<lparr>lf_id = ''u1'', lf_name = ''a.txt'', lf_size = 1, lf_type = ''text/plain'',
          lf_data = ''data:text/plain;base64,YQ=='', lf_createdAt = ''2024-01-01T00:00:00.000Z''\<rparr>,
        \<lparr>lf_id = ''u2'', lf_name = ''b.txt'', lf_size = 2, lf_type = ''text/plain'',
          lf_data = ''data:text/plain;base64,YmI='', lf_createdAt = ''2024-01-01T00:00:00.001Z''\<rparr>] \<and>
   newest_first_files (l_files (local_init Map.empty)) \<and>
   \<not> newest_first_files
     (l_files
       (handleFileUpload_local (local_init Map.empty)
        (Some
          [(\<lparr>file_name = ''a.txt'', file_size = 1, file_type = ''text/plain''\<rparr>,
            \<lparr>readResult = Some ''data:text/plain;base64,YQ=='', fileUUID = ''u1'',
              fileNow = ''2024-01-01T00:00:00.000Z''\<rparr>),
           (\<lparr>file_name = ''b.txt'', file_size = 2, file_type = ''text/plain''\<rparr>,
            \<lparr>readResult = Some ''data:text/plain;base64,YmI='', fileUUID = ''u2'',
              fileNow = ''2024-01-01T00:00:00.001Z''\<rparr>)])))"
  by (simp add: handleFileUpload_local_def setFiles_def local_init_def stored_files_def
      newest_first_files_def Let_def)

end
